theory Spec2Isabelle
  imports Complex_Main "HOL-Library.Char_ord" "HOL-Library.List_Lexorder" "HOL-Library.Multiset"
begin

section \<open>Values, tables and errors\<close>

text \<open>
  The script of \<^verbatim>\<open>darksky_soccer.py\<close> moves tables between a sqlite store, pandas
  and a weather service. A table (a pandas DataFrame, or a table of the store) is its list
  of column names with its rows, each row a list of cells in column order. A cell is an
  integer, a text or a boolean.

  Every exception the script can raise is a value: a function that may raise returns
  \<open>error + 'a\<close>. \<open>Unmodelled\<close> marks an input on which the source calls into pandas or
  sqlite with cells of a type the store does not give that column (goals and seasons are
  integers, teams, divisions and dates are text, the rain flag is a boolean); what the
  libraries do there is not modelled.
\<close>

datatype error =
    KeyError string
  | ValueError string
  | OperationalError string
  | RequestError
  | Unmodelled

datatype val = IntV int | StrV string | BoolV bool

record frame =
  columns :: "string list"
  rows :: "val list list"

definition cell :: "string list \<Rightarrow> val list \<Rightarrow> string \<Rightarrow> val option" where
  "cell cols r c = map_of (zip cols r) c"

text \<open>\<^verbatim>\<open>pd.DataFrame(data)\<close> for a list of dicts with the same keys: no dict, no column.\<close>

definition DataFrame :: "(string \<times> val) list list \<Rightarrow> frame" where
  "DataFrame data =
     (case data of
        [] \<Rightarrow> \<lparr>columns = [], rows = []\<rparr>
      | d # _ \<Rightarrow> \<lparr>columns = map fst d, rows = map (map snd) data\<rparr>)"

text \<open>A text column of a table, row by row; \<open>None\<close> when a cell is absent or not a text.\<close>

definition str_column :: "frame \<Rightarrow> string \<Rightarrow> string list option" where
  "str_column df c =
     those (map (\<lambda>r. case cell (columns df) r c of Some (StrV s) \<Rightarrow> Some s | _ \<Rightarrow> None) (rows df))"

text \<open>\<^verbatim>\<open>Series.unique()\<close>: the distinct values in order of first appearance.\<close>

fun unique :: "'a list \<Rightarrow> 'a list" where
  "unique [] = []"
| "unique (x # xs) = x # unique (removeAll x xs)"

text \<open>
  The Python slice \<^verbatim>\<open>xs[:n]\<close>: the first \<open>n\<close> elements for \<open>n \<ge> 0\<close>, and all but the
  last \<open>-n\<close> elements for \<open>n < 0\<close> (none when there are fewer).
\<close>

definition slice_to :: "int \<Rightarrow> 'a list \<Rightarrow> 'a list" where
  "slice_to n xs = (if 0 \<le> n then take (nat n) xs else take (length xs - nat (- n)) xs)"

text \<open>
  Iterating over \<^verbatim>\<open>set(xs)\<close> visits each distinct element once, in an order that the
  hashing of strings fixes. The order is the parameter \<open>ord\<close>, which rearranges the
  distinct elements (\<open>rearranges\<close>).
\<close>

definition py_set :: "('a list \<Rightarrow> 'a list) \<Rightarrow> 'a list \<Rightarrow> 'a list" where
  "py_set ord xs = ord (remdups xs)"

definition rearranges :: "('a list \<Rightarrow> 'a list) \<Rightarrow> bool" where
  "rearranges ord \<longleftrightarrow> (\<forall>ys. mset (ord ys) = mset ys)"

section \<open>The store\<close>

text \<open>
  A sqlite database is its tables by name; the file system gives the database behind a
  path, or \<open>None\<close> where \<^verbatim>\<open>sqlite3.connect\<close> cannot open one.
\<close>

type_synonym database = "string \<rightharpoonup> frame"
type_synonym files = "string \<rightharpoonup> database"

text \<open>
  \<^verbatim>\<open>get_season_data\<close>: the rows of \<open>Matches\<close> of one season in the divisions D1 and E0,
  in the order of the table. Assigning the column names to the DataFrame built from no row
  raises (a length mismatch: that DataFrame has no column).
\<close>

definition get_season_data :: "files \<Rightarrow> string \<Rightarrow> int \<Rightarrow> error + frame" where
  "get_season_data fs database season =
     (case fs database of
        None \<Rightarrow> Inl (OperationalError ''unable to open database file'')
      | Some conn \<Rightarrow>
          (case conn ''Matches'' of
             None \<Rightarrow> Inl (OperationalError ''no such table: Matches'')
           | Some t \<Rightarrow>
               if ''Season'' \<in> set (columns t) \<and> ''Div'' \<in> set (columns t)
               then
                 let fetched =
                       filter (\<lambda>r. cell (columns t) r ''Season'' = Some (IntV season) \<and>
                                   cell (columns t) r ''Div'' \<in> {Some (StrV ''D1''), Some (StrV ''E0'')})
                              (rows t)
                 in if fetched = [] then Inl (ValueError ''Length mismatch'')
                    else Inr \<lparr>columns = columns t, rows = fetched\<rparr>
               else Inl (OperationalError ''no such column'')))"

section \<open>The weather service\<close>

text \<open>
  The remote service answers a request URL with the \<open>icon\<close> of the day (\<open>None\<close> when the
  answer names none), or the request raises: the network fails, or the answer has no
  \<open>daily.data[0]\<close>. The requests sent so far are the state, a list of URLs.
\<close>

type_synonym service = "string \<Rightarrow> error + string option"

definition request_url :: "string \<Rightarrow> string \<Rightarrow> string \<Rightarrow> string \<Rightarrow> string" where
  "request_url password lat long date =
     ''https://api.darksky.net/forecast/'' @ password @ ''/'' @ lat @ '','' @ long @ '', ''
       @ (date @ ''T00:00:00'')"

definition get_weather_data ::
  "service \<Rightarrow> string list \<Rightarrow> string \<Rightarrow> string \<Rightarrow> string \<Rightarrow> string \<Rightarrow>
   string list \<times> (error + string \<times> bool)" where
  "get_weather_data svc sent date password lat long =
     (let url = request_url password lat long date
      in (sent @ [url],
          case svc url of
            Inl e \<Rightarrow> Inl e
          | Inr icon \<Rightarrow> Inr (date, icon = Some ''rain'')))"

definition default_lat :: string where "default_lat = ''52.5200''"
definition default_long :: string where "default_long = ''13.4050''"

text \<open>
  \<^verbatim>\<open>rain_dates\<close>: the loop over \<^verbatim>\<open>set(unique_dates)\<close>, one request per element, stopping at
  the first request that raises; \<open>data\<close> is the list of dicts collected so far.
\<close>

fun rain_loop ::
  "service \<Rightarrow> string \<Rightarrow> string list \<Rightarrow> string list \<Rightarrow> (string \<times> val) list list \<Rightarrow>
   string list \<times> (error + (string \<times> val) list list)" where
  "rain_loop svc password [] sent data = (sent, Inr data)"
| "rain_loop svc password (d # ds) sent data =
     (case get_weather_data svc sent d password default_lat default_long of
        (sent', Inl e) \<Rightarrow> (sent', Inl e)
      | (sent', Inr (date, rain)) \<Rightarrow>
          rain_loop svc password ds sent'
            (data @ [[(''Date'', StrV date), (''rain'', BoolV rain)]]))"

definition rain_dates ::
  "service \<Rightarrow> (string list \<Rightarrow> string list) \<Rightarrow> string list \<Rightarrow> string list \<Rightarrow> string \<Rightarrow>
   string list \<times> (error + frame)" where
  "rain_dates svc ord sent unique_dates password =
     (case rain_loop svc password (py_set ord unique_dates) sent [] of
        (sent', Inl e) \<Rightarrow> (sent', Inl e)
      | (sent', Inr data) \<Rightarrow> (sent', Inr (DataFrame data)))"

section \<open>Joining matches and weather\<close>

text \<open>
  \<^verbatim>\<open>pd.merge(left, right, on=key)\<close>, the inner join on one key column: both tables must have
  the column; a column other than the key that both tables have is renamed with the
  suffixes \<open>_x\<close> (left) and \<open>_y\<close> (right); the rows keep the order of the left table, each
  left row paired with the right rows of the same key in their order, the key written once.
\<close>

definition drop_column :: "string \<Rightarrow> string list \<Rightarrow> 'a list \<Rightarrow> 'a list" where
  "drop_column key cols r = map snd (filter (\<lambda>(c, v). c \<noteq> key) (zip cols r))"

definition pd_merge :: "string \<Rightarrow> frame \<Rightarrow> frame \<Rightarrow> error + frame" where
  "pd_merge key left right =
     (if key \<in> set (columns left) \<and> key \<in> set (columns right)
      then
        let rcols = filter (\<lambda>c. c \<noteq> key) (columns right);
            lcols = filter (\<lambda>c. c \<noteq> key) (columns left);
            lnames = map (\<lambda>c. if c \<in> set rcols then c @ ''_x'' else c) (columns left);
            rnames = map (\<lambda>c. if c \<in> set lcols then c @ ''_y'' else c) rcols
        in Inr \<lparr>columns = lnames @ rnames,
                rows = concat (map (\<lambda>l.
                         map (\<lambda>r. l @ drop_column key (columns right) r)
                           (filter (\<lambda>r. cell (columns right) r key = cell (columns left) l key)
                              (rows right)))
                         (rows left))\<rparr>
      else Inl (KeyError key))"

text \<open>
  \<^verbatim>\<open>match_rain_data\<close>. The season is read from the path \<^verbatim>\<open>'database.sqlite'\<close>, whatever
  the argument \<open>database\<close> is. \<open>limit_api_calls\<close> defaults to \<open>-1\<close>.
\<close>

definition limit_api_calls_default :: int where
  "limit_api_calls_default = - 1"

definition match_rain_data ::
  "files \<Rightarrow> service \<Rightarrow> (string list \<Rightarrow> string list) \<Rightarrow> string list \<Rightarrow>
   string \<Rightarrow> int \<Rightarrow> string \<Rightarrow> int \<Rightarrow> string list \<times> (error + frame)" where
  "match_rain_data fs svc ord sent database season password limit_api_calls =
     (case get_season_data fs ''database.sqlite'' season of
        Inl e \<Rightarrow> (sent, Inl e)
      | Inr match_data \<Rightarrow>
          if ''Date'' \<in> set (columns match_data)
          then
            (case str_column match_data ''Date'' of
               None \<Rightarrow> (sent, Inl Unmodelled)
             | Some dates \<Rightarrow>
                 let unique_match_dates = slice_to limit_api_calls (unique dates)
                 in (case rain_dates svc ord sent unique_match_dates password of
                       (sent', Inl e) \<Rightarrow> (sent', Inl e)
                     | (sent', Inr rain_days) \<Rightarrow>
                         (sent', pd_merge ''Date'' match_data rain_days)))
          else (sent, Inl (KeyError ''Date'')))"

section \<open>Enriched matches\<close>

text \<open>
  The aggregators read seven columns of the enriched table. \<open>read_matches\<close> gives the rows
  as records, typed as the store and the weather step type them; it is \<open>None\<close> when a cell
  is absent or of another type.
\<close>

record match =
  Div :: string
  Season :: int
  HomeTeam :: string
  AwayTeam :: string
  FTHG :: int
  FTAG :: int
  rain :: bool

definition str_cell :: "string list \<Rightarrow> val list \<Rightarrow> string \<Rightarrow> string option" where
  "str_cell cols r c = (case cell cols r c of Some (StrV s) \<Rightarrow> Some s | _ \<Rightarrow> None)"

definition int_cell :: "string list \<Rightarrow> val list \<Rightarrow> string \<Rightarrow> int option" where
  "int_cell cols r c = (case cell cols r c of Some (IntV i) \<Rightarrow> Some i | _ \<Rightarrow> None)"

definition bool_cell :: "string list \<Rightarrow> val list \<Rightarrow> string \<Rightarrow> bool option" where
  "bool_cell cols r c = (case cell cols r c of Some (BoolV b) \<Rightarrow> Some b | _ \<Rightarrow> None)"

definition read_match :: "string list \<Rightarrow> val list \<Rightarrow> match option" where
  "read_match cols r =
     Option.bind (str_cell cols r ''Div'') (\<lambda>d.
     Option.bind (int_cell cols r ''Season'') (\<lambda>s.
     Option.bind (str_cell cols r ''HomeTeam'') (\<lambda>h.
     Option.bind (str_cell cols r ''AwayTeam'') (\<lambda>a.
     Option.bind (int_cell cols r ''FTHG'') (\<lambda>hg.
     Option.bind (int_cell cols r ''FTAG'') (\<lambda>ag.
     Option.bind (bool_cell cols r ''rain'') (\<lambda>b.
       Some \<lparr>Div = d, Season = s, HomeTeam = h, AwayTeam = a, FTHG = hg, FTAG = ag, rain = b\<rparr>)))))))"

definition read_matches :: "frame \<Rightarrow> match list option" where
  "read_matches df = those (map (read_match (columns df)) (rows df))"

text \<open>The first of the columns \<open>cs\<close>, in the order the source reads them, that \<open>df\<close> lacks.\<close>

definition missing_column :: "frame \<Rightarrow> string list \<Rightarrow> string option" where
  "missing_column df cs = find (\<lambda>c. c \<notin> set (columns df)) cs"

section \<open>Grouping, joining on the index, rounding\<close>

text \<open>
  \<^verbatim>\<open>groupby(key)\<close> and \<^verbatim>\<open>GROUP BY key ORDER BY key\<close>: the groups in the order of their keys,
  each with its rows in the order of the table. The sum of a boolean column is the number
  of rows where it holds.
\<close>

definition groupby :: "('a \<Rightarrow> string) \<Rightarrow> 'a list \<Rightarrow> (string \<times> 'a list) list" where
  "groupby key xs = map (\<lambda>k. (k, filter (\<lambda>x. key x = k) xs)) (sort (remdups (map key xs)))"

definition sum_bool :: "('a \<Rightarrow> bool) \<Rightarrow> 'a list \<Rightarrow> nat" where
  "sum_bool p xs = length (filter p xs)"

text \<open>
  The inner join of two keyed tables on their keys (\<^verbatim>\<open>pd.merge\<close> with \<^verbatim>\<open>left_index\<close> and
  \<^verbatim>\<open>right_index\<close>, and the \<^verbatim>\<open>JOIN ... ON (HomeTeam==AwayTeam)\<close> of the query).
\<close>

definition merge_index :: "(string \<times> 'a) list \<Rightarrow> (string \<times> 'b) list \<Rightarrow> (string \<times> 'a \<times> 'b) list" where
  "merge_index left right =
     concat (map (\<lambda>(k, a). map (\<lambda>(k', b). (k, (a, b))) (filter (\<lambda>(k', b). k' = k) right)) left)"

text \<open>
  \<open>rain_win_pct\<close> is a float in the source. The model takes quotient and decimal rounding
  in exact rational arithmetic. Dividing counts in pandas gives NaN for \<open>0 / 0\<close> and
  infinity for \<open>n / 0\<close>; rounding there is to the nearest multiple, a tie to the even one.
  In sqlite a division by zero gives NULL (\<open>None\<close>), and \<open>round\<close> takes a tie away from
  zero.
\<close>

datatype pyfloat = Float rat | NaN | Infinity

definition true_div :: "nat \<Rightarrow> nat \<Rightarrow> pyfloat" where
  "true_div n d = (if d = 0 then (if n = 0 then NaN else Infinity) else Float (of_nat n / of_nat d))"

definition round_half_even :: "rat \<Rightarrow> int" where
  "round_half_even y =
     (let f = \<lfloor>y\<rfloor>; d = y - of_int f
      in if d < 1 / 2 then f else if 1 / 2 < d then f + 1 else if even f then f else f + 1)"

fun round_float :: "pyfloat \<Rightarrow> nat \<Rightarrow> pyfloat" where
  "round_float (Float x) ndigits = Float (of_int (round_half_even (x * 10 ^ ndigits)) / 10 ^ ndigits)"
| "round_float NaN ndigits = NaN"
| "round_float Infinity ndigits = Infinity"

definition sql_div :: "rat \<Rightarrow> nat \<Rightarrow> rat option" where
  "sql_div x d = (if d = 0 then None else Some (x / of_nat d))"

fun sql_round :: "rat option \<Rightarrow> nat \<Rightarrow> rat option" where
  "sql_round None ndigits = None"
| "sql_round (Some x) ndigits =
     Some (if 0 \<le> x then of_int \<lfloor>x * 10 ^ ndigits + 1 / 2\<rfloor> / 10 ^ ndigits
           else - (of_int \<lfloor>- x * 10 ^ ndigits + 1 / 2\<rfloor> / 10 ^ ndigits))"

section \<open>The in-memory aggregator\<close>

definition home_win :: "match \<Rightarrow> bool" where
  "home_win m \<longleftrightarrow> FTHG m > FTAG m"

definition rain_home_win :: "match \<Rightarrow> bool" where
  "rain_home_win m \<longleftrightarrow> home_win m \<and> rain m"

definition away_win :: "match \<Rightarrow> bool" where
  "away_win m \<longleftrightarrow> FTAG m > FTHG m"

definition rain_away_win :: "match \<Rightarrow> bool" where
  "rain_away_win m \<longleftrightarrow> away_win m \<and> rain m"

text \<open>The four summed columns kept of each side; \<open>rain\<close> is \<open>rain_x\<close> and \<open>rain_y\<close> after the merge.\<close>

record home_sums =
  FTHG_sum :: int
  home_win_sum :: nat
  rain_home_win_sum :: nat
  rain_x :: nat

record away_sums =
  FTAG_sum :: int
  away_win_sum :: nat
  rain_away_win_sum :: nat
  rain_y :: nat

definition home_stats :: "match list \<Rightarrow> (string \<times> home_sums) list" where
  "home_stats df =
     map (\<lambda>(t, g). (t, \<lparr>FTHG_sum = sum_list (map FTHG g), home_win_sum = sum_bool home_win g,
                         rain_home_win_sum = sum_bool rain_home_win g, rain_x = sum_bool rain g\<rparr>))
       (groupby HomeTeam df)"

definition away_stats :: "match list \<Rightarrow> (string \<times> away_sums) list" where
  "away_stats df =
     map (\<lambda>(t, g). (t, \<lparr>FTAG_sum = sum_list (map FTAG g), away_win_sum = sum_bool away_win g,
                         rain_away_win_sum = sum_bool rain_away_win g, rain_y = sum_bool rain g\<rparr>))
       (groupby AwayTeam df)"

record team_stats =
  team_name :: string
  wins :: nat
  goals :: int
  rain_win_pct :: pyfloat
  season :: int
  division :: string

text \<open>
  The body of \<^verbatim>\<open>calculate_aggregate_stats_pandas\<close> on typed rows. The records come in
  the order of the team names. The team is the field \<open>team_name\<close>: the model does not
  follow the names of the indexes through the two merges.
\<close>

definition aggregate_pandas :: "match list \<Rightarrow> team_stats list" where
  "aggregate_pandas df =
     (let df' = merge_index (home_stats df) (away_stats df);
          agg = map (\<lambda>(t, (h, a)).
                  (t, (home_win_sum h + away_win_sum a,
                       FTHG_sum h + FTAG_sum a,
                       round_float (true_div (rain_home_win_sum h + rain_away_win_sum a)
                                             (rain_y a + rain_x h)) 3))) df';
          final_df = merge_index agg
                       (map (\<lambda>(t, g). (t, (Max (set (map Season g)), Max (set (map Div g)))))
                          (groupby HomeTeam df))
      in map (\<lambda>(t, ((w, g, p), (s, d))).
                \<lparr>team_name = t, wins = w, goals = g, rain_win_pct = p, season = s, division = d\<rparr>)
           final_df)"

text \<open>
  \<^verbatim>\<open>calculate_aggregate_stats_pandas\<close>: reading a column the table lacks raises KeyError, in
  the order the source reads them.
\<close>

definition calculate_aggregate_stats_pandas :: "frame \<Rightarrow> error + team_stats list" where
  "calculate_aggregate_stats_pandas df =
     (case missing_column df [''FTHG'', ''FTAG'', ''rain'', ''HomeTeam'', ''AwayTeam'', ''Season'', ''Div''] of
        Some c \<Rightarrow> Inl (KeyError c)
      | None \<Rightarrow>
          (case read_matches df of
             None \<Rightarrow> Inl Unmodelled
           | Some ms \<Rightarrow> Inr (aggregate_pandas ms)))"

section \<open>The query-based aggregator\<close>

text \<open>
  The two grouped subqueries. The first selects the bare column \<open>Div\<close> beside
  \<open>MAX(Div) as Div\<close>, and the outer \<open>Div\<close> is the first of the two; sqlite takes a bare
  column of a grouped query with two \<open>MAX\<close> from a row of the group that it does not
  specify: the parameter \<open>bare\<close> picks that row.
\<close>

record home_group =
  Div_bare :: string
  h_win :: nat
  h_draw :: nat
  h_loss :: nat
  h_rain_win :: nat
  h_rain_games :: nat
  h_goals_for :: int
  Div_max :: string
  Season_max :: int

record away_group =
  a_win :: nat
  a_rain_win :: nat
  a_rain_games :: nat
  a_goals_for :: int

definition home_select :: "(match list \<Rightarrow> match) \<Rightarrow> match list \<Rightarrow> (string \<times> home_group) list" where
  "home_select bare t =
     map (\<lambda>(k, g). (k, \<lparr>Div_bare = Div (bare g),
                         h_win = sum_bool (\<lambda>m. FTHG m > FTAG m) g,
                         h_draw = sum_bool (\<lambda>m. FTHG m = FTAG m) g,
                         h_loss = sum_bool (\<lambda>m. FTHG m < FTAG m) g,
                         h_rain_win = sum_bool (\<lambda>m. FTHG m > FTAG m \<and> rain m) g,
                         h_rain_games = sum_bool rain g,
                         h_goals_for = sum_list (map FTHG g),
                         Div_max = Max (set (map Div g)),
                         Season_max = Max (set (map Season g))\<rparr>))
       (groupby HomeTeam t)"

definition away_select :: "match list \<Rightarrow> (string \<times> away_group) list" where
  "away_select t =
     map (\<lambda>(k, g). (k, \<lparr>a_win = sum_bool (\<lambda>m. FTAG m > FTHG m) g,
                         a_rain_win = sum_bool (\<lambda>m. FTAG m > FTHG m \<and> rain m) g,
                         a_rain_games = sum_bool rain g,
                         a_goals_for = sum_list (map FTAG g)\<rparr>))
       (groupby AwayTeam t)"

record club_stats =
  Club :: string
  Div' :: string
  Season' :: int
  W :: nat
  GF :: int
  rain_win_pct' :: "rat option"

text \<open>
  The outer query. \<open>ORDER BY GF DESC\<close> is modelled as a stable sort of the joined rows,
  which come in the order of the home teams: sqlite leaves the order of rows of equal
  \<open>GF\<close> open.
\<close>

definition agg_select :: "(match list \<Rightarrow> match) \<Rightarrow> match list \<Rightarrow> club_stats list" where
  "agg_select bare t =
     sort_key (\<lambda>r. - GF r)
       (map (\<lambda>(k, (h, a)).
               \<lparr>Club = k, Div' = Div_bare h, Season' = Season_max h,
                W = h_win h + a_win a,
                GF = h_goals_for h + a_goals_for a,
                rain_win_pct' =
                  sql_round (sql_div (of_nat (a_rain_win a + h_rain_win h) * 1)
                                     (h_rain_games h + a_rain_games a)) 2\<rparr>)
          (merge_index (home_select bare t) (away_select t)))"

text \<open>
  \<^verbatim>\<open>to_sql\<close> writes the table with the row numbers as the column \<open>index\<close>. The query fails
  where the staging table lacks a column it names.
\<close>

definition to_sql :: "frame \<Rightarrow> frame" where
  "to_sql df =
     \<lparr>columns = ''index'' # columns df,
      rows = map (\<lambda>(i, r). IntV (int i) # r) (zip [0 ..< length (rows df)] (rows df))\<rparr>"

definition agg_query :: "(match list \<Rightarrow> match) \<Rightarrow> database \<Rightarrow> error + club_stats list" where
  "agg_query bare conn =
     (case conn ''temp_rain_stats'' of
        None \<Rightarrow> Inl (OperationalError ''no such table: temp_rain_stats'')
      | Some t \<Rightarrow>
          (case missing_column t [''Div'', ''HomeTeam'', ''FTHG'', ''FTAG'', ''rain'', ''Season'', ''AwayTeam''] of
             Some c \<Rightarrow> Inl (OperationalError ''no such column'')
           | None \<Rightarrow>
               (case read_matches t of
                  None \<Rightarrow> Inl Unmodelled
                | Some ms \<Rightarrow> Inr (agg_select bare ms))))"

text \<open>
  \<^verbatim>\<open>calculate_aggregate_stats_sqlite\<close>, on the database behind the path \<open>database\<close>; the
  files are returned as the function leaves them. A table with a column named \<open>index\<close> or
  with two columns of one name cannot be written with its index; that path is not
  modelled.
\<close>

definition calculate_aggregate_stats_sqlite ::
  "(match list \<Rightarrow> match) \<Rightarrow> files \<Rightarrow> frame \<Rightarrow> string \<Rightarrow> files \<times> (error + club_stats list)" where
  "calculate_aggregate_stats_sqlite bare fs match_stats_df database =
     (case fs database of
        None \<Rightarrow> (fs, Inl (OperationalError ''unable to open database file''))
      | Some conn \<Rightarrow>
          if ''index'' \<in> set (columns match_stats_df) \<or> \<not> distinct (columns match_stats_df)
          then (fs, Inl Unmodelled)
          else
            let conn1 = conn(''temp_rain_stats'' \<mapsto> to_sql match_stats_df)
            in (case agg_query bare conn1 of
                  Inl e \<Rightarrow> (fs(database \<mapsto> conn1), Inl e)
                | Inr df \<Rightarrow> (fs(database \<mapsto> conn1(''temp_rain_stats'' := None)), Inr df)))"

section \<open>What the records are measured against\<close>

text \<open>
  Counted on the rows of the enriched table themselves, for a team \<open>t\<close>: the matches it
  played, its rain-day games (home and away) and its rain-day wins (home and away).
\<close>

definition played :: "match list \<Rightarrow> string \<Rightarrow> nat" where
  "played ms t = sum_bool (\<lambda>m. HomeTeam m = t \<or> AwayTeam m = t) ms"

definition rain_games :: "match list \<Rightarrow> string \<Rightarrow> nat" where
  "rain_games ms t =
     sum_bool (\<lambda>m. HomeTeam m = t \<and> rain m) ms + sum_bool (\<lambda>m. AwayTeam m = t \<and> rain m) ms"

definition rain_wins :: "match list \<Rightarrow> string \<Rightarrow> nat" where
  "rain_wins ms t =
     sum_bool (\<lambda>m. HomeTeam m = t \<and> FTHG m > FTAG m \<and> rain m) ms
       + sum_bool (\<lambda>m. AwayTeam m = t \<and> FTAG m > FTHG m \<and> rain m) ms"


text \<open>\<open>q\<close> is \<open>x\<close> rounded to \<open>k\<close> decimal digits: a multiple of \<open>10\<^sup>-\<^sup>k\<close> nearest to \<open>x\<close>.\<close>

definition rounded_to :: "nat \<Rightarrow> rat \<Rightarrow> rat \<Rightarrow> bool" where
  "rounded_to k q x \<longleftrightarrow> (\<exists>n::int. q = of_int n / 10 ^ k) \<and> \<bar>q - x\<bar> \<le> 1 / (2 * 10 ^ k)"

section \<open>A season of two matches\<close>

text \<open>
  The two matches of the specification's example, as a table of the store, with the
  weather of their days, and the service that reports them.
\<close>

definition example_matches :: frame where
  "example_matches =
     \<lparr>columns = [''Div'', ''Season'', ''Date'', ''HomeTeam'', ''AwayTeam'', ''FTHG'', ''FTAG''],
      rows = [[StrV ''D1'', IntV 2020, StrV ''2020-01-01'', StrV ''A'', StrV ''B'', IntV 2, IntV 1],
              [StrV ''D1'', IntV 2020, StrV ''2020-01-02'', StrV ''B'', StrV ''A'', IntV 0, IntV 3]]\<rparr>"

definition example_rain :: frame where
  "example_rain =
     \<lparr>columns = [''Date'', ''rain''],
      rows = [[StrV ''2020-01-01'', BoolV True], [StrV ''2020-01-02'', BoolV False]]\<rparr>"

definition example_enriched :: frame where
  "example_enriched =
     \<lparr>columns = [''Div'', ''Season'', ''Date'', ''HomeTeam'', ''AwayTeam'', ''FTHG'', ''FTAG'', ''rain''],
      rows = [[StrV ''D1'', IntV 2020, StrV ''2020-01-01'', StrV ''A'', StrV ''B'', IntV 2, IntV 1, BoolV True],
              [StrV ''D1'', IntV 2020, StrV ''2020-01-02'', StrV ''B'', StrV ''A'', IntV 0, IntV 3, BoolV False]]\<rparr>"


definition example_dates :: "string list" where
  "example_dates = [''2020-01-01'', ''2020-01-02'', ''2020-01-01'']"

definition example_files :: files where
  "example_files = [''database.sqlite'' \<mapsto> [''Matches'' \<mapsto> example_matches]]"

definition example_service :: service where
  "example_service url =
     (if url = request_url ''key'' default_lat default_long ''2020-01-01''
      then Inr (Some ''rain'') else Inr (Some ''clear-day''))"

text \<open>What the two aggregators return for it, and files with an empty database for the query.\<close>

definition example_team_stats :: "team_stats list" where
  "example_team_stats =
     [\<lparr>team_name = ''A'', wins = 2, goals = 5, rain_win_pct = Float 1, season = 2020, division = ''D1''\<rparr>,
      \<lparr>team_name = ''B'', wins = 0, goals = 1, rain_win_pct = Float 0, season = 2020, division = ''D1''\<rparr>]"

definition example_club_stats :: "club_stats list" where
  "example_club_stats =
     [\<lparr>Club = ''A'', Div' = ''D1'', Season' = 2020, W = 2, GF = 5, rain_win_pct' = Some 1\<rparr>,
      \<lparr>Club = ''B'', Div' = ''D1'', Season' = 2020, W = 0, GF = 1, rain_win_pct' = Some 0\<rparr>]"

definition stats_files :: files where
  "stats_files = [''stats.sqlite'' \<mapsto> Map.empty]"

section \<open>Grouping and joining by team\<close>

lemma filter_key_map:
  "distinct ks \<Longrightarrow>
   filter (\<lambda>(k', b). k' = k) (map (\<lambda>t. (t, f t)) ks) = (if k \<in> set ks then [(k, f k)] else [])"
  by (induction ks) auto

lemma merge_index_keyed:
  assumes "distinct ks'"
  shows "merge_index (map (\<lambda>t. (t, f t)) ks) (map (\<lambda>t. (t, g t)) ks') =
         map (\<lambda>t. (t, (f t, g t))) (filter (\<lambda>t. t \<in> set ks') ks)"
  by (induction ks) (simp_all add: merge_index_def filter_key_map [OF assms])

lemma groupby_map:
  "map (\<lambda>(t, g). (t, F g)) (groupby key xs) =
   map (\<lambda>t. (t, F (filter (\<lambda>x. key x = t) xs))) (sort (remdups (map key xs)))"
  by (simp add: groupby_def comp_def)

text \<open>
  Both aggregators give one record for each home team that is also an away team, computed
  from the team's home rows and its away rows.
\<close>

lemma aggregate_pandas_closed:
  "aggregate_pandas ms =
     map (\<lambda>t. \<lparr>team_name = t,
               wins = sum_bool home_win (filter (\<lambda>m. HomeTeam m = t) ms)
                    + sum_bool away_win (filter (\<lambda>m. AwayTeam m = t) ms),
               goals = sum_list (map FTHG (filter (\<lambda>m. HomeTeam m = t) ms))
                     + sum_list (map FTAG (filter (\<lambda>m. AwayTeam m = t) ms)),
               rain_win_pct = round_float (true_div
                  (sum_bool rain_home_win (filter (\<lambda>m. HomeTeam m = t) ms)
                    + sum_bool rain_away_win (filter (\<lambda>m. AwayTeam m = t) ms))
                  (sum_bool rain (filter (\<lambda>m. AwayTeam m = t) ms)
                    + sum_bool rain (filter (\<lambda>m. HomeTeam m = t) ms))) 3,
               season = Max (set (map Season (filter (\<lambda>m. HomeTeam m = t) ms))),
               division = Max (set (map Div (filter (\<lambda>m. HomeTeam m = t) ms)))\<rparr>)
       (filter (\<lambda>t. t \<in> AwayTeam ` set ms) (sort (remdups (map HomeTeam ms))))"
proof -
  have keep: "filter (\<lambda>t. t \<in> AwayTeam ` set ms \<and> t \<in> HomeTeam ` set ms)
                (sort (remdups (map HomeTeam ms)))
              = filter (\<lambda>t. t \<in> AwayTeam ` set ms) (sort (remdups (map HomeTeam ms)))"
    by (rule filter_cong) auto
  show ?thesis
    unfolding aggregate_pandas_def home_stats_def away_stats_def groupby_map Let_def
    by (simp add: merge_index_keyed comp_def keep)
qed

lemma agg_select_closed:
  "agg_select bare ms =
     sort_key (\<lambda>r. - GF r)
      (map (\<lambda>t. \<lparr>Club = t,
               Div' = Div (bare (filter (\<lambda>m. HomeTeam m = t) ms)),
               Season' = Max (set (map Season (filter (\<lambda>m. HomeTeam m = t) ms))),
               W = sum_bool (\<lambda>m. FTHG m > FTAG m) (filter (\<lambda>m. HomeTeam m = t) ms)
                 + sum_bool (\<lambda>m. FTAG m > FTHG m) (filter (\<lambda>m. AwayTeam m = t) ms),
               GF = sum_list (map FTHG (filter (\<lambda>m. HomeTeam m = t) ms))
                     + sum_list (map FTAG (filter (\<lambda>m. AwayTeam m = t) ms)),
               rain_win_pct' = sql_round (sql_div
                  (of_nat (sum_bool (\<lambda>m. FTAG m > FTHG m \<and> rain m) (filter (\<lambda>m. AwayTeam m = t) ms)
                    + sum_bool (\<lambda>m. FTHG m > FTAG m \<and> rain m) (filter (\<lambda>m. HomeTeam m = t) ms)) * 1)
                  (sum_bool rain (filter (\<lambda>m. HomeTeam m = t) ms)
                    + sum_bool rain (filter (\<lambda>m. AwayTeam m = t) ms))) 2\<rparr>)
       (filter (\<lambda>t. t \<in> AwayTeam ` set ms) (sort (remdups (map HomeTeam ms)))))"
  unfolding agg_select_def home_select_def away_select_def groupby_map
  by (simp add: merge_index_keyed comp_def)

section \<open>Counting and rounding\<close>

lemma sum_bool_filter: "sum_bool p (filter q xs) = sum_bool (\<lambda>x. q x \<and> p x) xs"
  by (simp add: sum_bool_def)

lemma wins_le_played:
  "sum_bool home_win (filter (\<lambda>m. HomeTeam m = t) ms) + sum_bool away_win (filter (\<lambda>m. AwayTeam m = t) ms)
     \<le> played ms t"
  by (induction ms) (auto simp: played_def sum_bool_def home_win_def away_win_def)

lemma code_rain_games:
  "sum_bool rain (filter (\<lambda>m. AwayTeam m = t) ms) + sum_bool rain (filter (\<lambda>m. HomeTeam m = t) ms)
     = rain_games ms t"
  by (simp add: rain_games_def sum_bool_filter)

lemma code_rain_wins:
  "sum_bool rain_home_win (filter (\<lambda>m. HomeTeam m = t) ms)
     + sum_bool rain_away_win (filter (\<lambda>m. AwayTeam m = t) ms) = rain_wins ms t"
  by (simp add: rain_wins_def sum_bool_filter rain_home_win_def rain_away_win_def home_win_def away_win_def)

lemma rain_wins_le_games: "rain_wins ms t \<le> rain_games ms t"
  by (induction ms) (auto simp: rain_wins_def rain_games_def sum_bool_def)

lemma round_half_even_near: "\<bar>of_int (round_half_even y) - y\<bar> \<le> 1 / 2"
proof -
  have lo: "of_int \<lfloor>y\<rfloor> \<le> y" and hi: "y < of_int \<lfloor>y\<rfloor> + 1"
    by linarith+
  show ?thesis
    unfolding round_half_even_def Let_def using lo hi
    by (simp add: abs_le_iff)
qed

lemma round_half_even_range:
  assumes "0 \<le> y" "y \<le> of_int n"
  shows "0 \<le> round_half_even y \<and> round_half_even y \<le> n"
proof -
  have f0: "0 \<le> \<lfloor>y\<rfloor>" using assms(1) by simp
  have fn: "\<lfloor>y\<rfloor> \<le> n" using assms(2) by (simp add: floor_le_iff)
  have up: "\<lfloor>y\<rfloor> + 1 \<le> n" if "\<not> y - of_int \<lfloor>y\<rfloor> < 1 / 2"
  proof -
    have "of_int \<lfloor>y\<rfloor> < y" using that by linarith
    then have "of_int \<lfloor>y\<rfloor> < (of_int n :: rat)" using assms(2) by linarith
    then show ?thesis by simp
  qed
  show ?thesis
    unfolding round_half_even_def Let_def using f0 fn up by auto
qed

lemma round_float_unit:
  assumes "n \<le> d" "0 < d"
  shows "\<exists>q. round_float (true_div n d) 3 = Float q \<and> 0 \<le> q \<and> q \<le> 1"
proof -
  let ?y = "(of_nat n / of_nat d :: rat) * 10 ^ 3"
  have "(of_nat n / of_nat d :: rat) \<le> 1" using assms by simp
  then have "?y \<le> 1 * 10 ^ 3" by (rule mult_right_mono) simp
  then have y1: "?y \<le> of_int 1000" by simp
  have y0: "0 \<le> ?y" by simp
  let ?q = "of_int (round_half_even ?y) / 10 ^ 3 :: rat"
  from round_half_even_range [OF y0 y1]
  have "0 \<le> round_half_even ?y" "round_half_even ?y \<le> 1000" by simp_all
  then have q: "0 \<le> ?q" "?q \<le> 1"
    by simp_all
  have "round_float (true_div n d) 3 = Float ?q"
    using assms by (simp add: true_div_def)
  with q show ?thesis by blast
qed

lemma round_float_rounded:
  assumes "0 < d"
  shows "\<exists>q. round_float (true_div n d) k = Float q \<and> rounded_to k q (of_nat n / of_nat d)"
proof -
  let ?x = "of_nat n / of_nat d :: rat"
  let ?q = "of_int (round_half_even (?x * 10 ^ k)) / 10 ^ k :: rat"
  have "\<bar>?q - ?x\<bar> = \<bar>of_int (round_half_even (?x * 10 ^ k)) - ?x * 10 ^ k\<bar> / 10 ^ k"
    by (simp add: field_simps abs_divide)
  also have "\<dots> \<le> (1 / 2) / 10 ^ k"
    by (rule divide_right_mono [OF round_half_even_near]) simp
  finally have "\<bar>?q - ?x\<bar> \<le> 1 / (2 * 10 ^ k)" by simp
  then have "rounded_to k ?q ?x" unfolding rounded_to_def by blast
  moreover have "round_float (true_div n d) k = Float ?q"
    using assms by (simp add: true_div_def)
  ultimately show ?thesis by blast
qed

lemma floor_half_near: "\<bar>of_int \<lfloor>y + 1 / 2\<rfloor> - y\<bar> \<le> 1 / (2::rat)"
proof -
  have lo: "of_int \<lfloor>y + 1 / 2\<rfloor> \<le> y + 1 / 2" and hi: "y + 1 / 2 < of_int \<lfloor>y + 1 / 2\<rfloor> + 1"
    by linarith+
  show ?thesis using lo hi unfolding abs_le_iff by linarith
qed

lemma sql_round_rounded:
  assumes "0 < d"
  shows "\<exists>q. sql_round (sql_div (of_nat n * 1) d) k = Some q \<and> rounded_to k q (of_nat n / of_nat d)"
proof -
  let ?x = "of_nat n / of_nat d :: rat"
  let ?y = "?x * 10 ^ k"
  let ?q = "of_int \<lfloor>?y + 1 / 2\<rfloor> / 10 ^ k :: rat"
  have near: "\<bar>of_int \<lfloor>?y + 1 / 2\<rfloor> - ?y\<bar> \<le> 1 / 2"
    by (rule floor_half_near)
  have "\<bar>?q - ?x\<bar> = \<bar>of_int \<lfloor>?y + 1 / 2\<rfloor> - ?y\<bar> / 10 ^ k"
    by (simp add: field_simps abs_divide)
  also have "\<dots> \<le> (1 / 2) / 10 ^ k"
    by (rule divide_right_mono [OF near]) simp
  finally have "\<bar>?q - ?x\<bar> \<le> 1 / (2 * 10 ^ k)" by simp
  then have "rounded_to k ?q ?x" unfolding rounded_to_def by blast
  moreover have "sql_round (sql_div (of_nat n * 1) d) k = Some ?q"
    using assms by (simp add: sql_div_def)
  ultimately show ?thesis by blast
qed

lemma sql_rain_games:
  "sum_bool rain (filter (\<lambda>m. HomeTeam m = t) ms) + sum_bool rain (filter (\<lambda>m. AwayTeam m = t) ms)
     = rain_games ms t"
  by (simp add: rain_games_def sum_bool_filter)

lemma sql_rain_wins:
  "sum_bool (\<lambda>m. FTAG m > FTHG m \<and> rain m) (filter (\<lambda>m. AwayTeam m = t) ms)
     + sum_bool (\<lambda>m. FTHG m > FTAG m \<and> rain m) (filter (\<lambda>m. HomeTeam m = t) ms) = rain_wins ms t"
  by (simp add: rain_wins_def sum_bool_filter)




section \<open>When the aggregators return\<close>

lemma pandas_Inr:
  assumes "calculate_aggregate_stats_pandas df = Inr ps"
  shows "\<exists>ms. read_matches df = Some ms \<and> ps = aggregate_pandas ms"
  using assms
  by (auto simp: calculate_aggregate_stats_pandas_def split: option.splits)


lemma read_match_to_sql: "read_match (''index'' # cols) (IntV i # r) = read_match cols r"
  by (simp add: read_match_def str_cell_def int_cell_def bool_cell_def cell_def)

lemma map_numbered:
  "length ns = length rs \<Longrightarrow> map (\<lambda>x. g (snd x)) (zip ns rs) = map g rs"
  by (induction ns rs rule: list_induct2) simp_all

lemma read_matches_to_sql: "read_matches (to_sql df) = read_matches df"
  by (simp add: read_matches_def to_sql_def read_match_to_sql case_prod_beta comp_def map_numbered)



lemma sqlite_Inr_inv:
  assumes "snd (calculate_aggregate_stats_sqlite bare fs df database) = Inr cs"
  shows "\<exists>ms. read_matches df = Some ms \<and> cs = agg_select bare ms"
  using assms
  by (auto simp: calculate_aggregate_stats_sqlite_def agg_query_def read_matches_to_sql Let_def
           split: option.splits if_splits sum.splits)

section \<open>The in-memory aggregator on the example and on the empty table\<close>

text \<open>
  C3. For the two matches of the example (A beats B 2-1 at home on a rainy 2020-01-01, A
  beats B 3-0 away on a dry 2020-01-02), whatever their division and season, the in-memory
  aggregator returns a record for team A with 2 wins, 5 goals and a rain win percentage
  of 1.0 (and one for team B with no win, 1 goal and 0.0).
\<close>

theorem pandas_two_match_example:
  "(case calculate_aggregate_stats_pandas
      \<lparr>columns = [''Div'', ''Season'', ''Date'', ''HomeTeam'', ''AwayTeam'', ''FTHG'', ''FTAG'', ''rain''],
       rows = [[StrV d1, IntV s1, StrV ''2020-01-01'', StrV ''A'', StrV ''B'', IntV 2, IntV 1, BoolV True],
               [StrV d2, IntV s2, StrV ''2020-01-02'', StrV ''B'', StrV ''A'', IntV 0, IntV 3, BoolV False]]\<rparr> of
      Inl e \<Rightarrow> False
    | Inr recs \<Rightarrow>
        map (\<lambda>r. (team_name r, wins r, goals r, rain_win_pct r)) recs
          = [(''A'', 2, 5, Float 1), (''B'', 0, 1, Float 0)])"
  by (simp add: calculate_aggregate_stats_pandas_def missing_column_def read_matches_def
        read_match_def str_cell_def int_cell_def bool_cell_def cell_def
        aggregate_pandas_def home_stats_def away_stats_def groupby_def merge_index_def
        sum_bool_def home_win_def away_win_def rain_home_win_def rain_away_win_def
        true_div_def round_half_even_def)

text \<open>
  C8. For a table of no rows that has the seven columns the aggregator reads, the
  in-memory aggregator returns the empty list of records and raises nothing.
\<close>

theorem pandas_empty_table:
  assumes "set [''FTHG'', ''FTAG'', ''rain'', ''HomeTeam'', ''AwayTeam'', ''Season'', ''Div'']
             \<subseteq> set cols"
  shows "calculate_aggregate_stats_pandas \<lparr>columns = cols, rows = []\<rparr> = Inr []"
  using assms
  by (simp add: calculate_aggregate_stats_pandas_def missing_column_def read_matches_def
        aggregate_pandas_def home_stats_def away_stats_def groupby_def merge_index_def)

theorem pandas_empty_table_witness:
  "set [''FTHG'', ''FTAG'', ''rain'', ''HomeTeam'', ''AwayTeam'', ''Season'', ''Div'']
     \<subseteq> set (columns example_enriched)
   \<and> calculate_aggregate_stats_pandas \<lparr>columns = columns example_enriched, rows = []\<rparr> = Inr []"
proof -
  have cols: "set [''FTHG'', ''FTAG'', ''rain'', ''HomeTeam'', ''AwayTeam'', ''Season'', ''Div'']
                \<subseteq> set (columns example_enriched)"
    by (simp add: example_enriched_def)
  from cols pandas_empty_table [OF cols] show ?thesis by blast
qed

section \<open>Bounds on the records of the in-memory aggregator\<close>

text \<open>
  C7. For every enriched table on which the in-memory aggregator returns, every record has
  no more wins than its team played matches, and where the team has a rain-day game the
  rain win percentage of the record is a number between 0 and 1.
\<close>

theorem pandas_wins_and_pct_bounds:
  assumes "calculate_aggregate_stats_pandas df = Inr recs" and "r \<in> set recs"
  shows "\<exists>ms. read_matches df = Some ms \<and>
           wins r \<le> played ms (team_name r) \<and>
           (0 < rain_games ms (team_name r) \<longrightarrow>
              (\<exists>q. rain_win_pct r = Float q \<and> 0 \<le> q \<and> q \<le> 1))"
proof -
  from pandas_Inr [OF assms(1)] obtain ms where
    ms: "read_matches df = Some ms" and recs: "recs = aggregate_pandas ms"
    by blast
  from assms(2) obtain t where
    w: "wins r = sum_bool home_win (filter (\<lambda>m. HomeTeam m = t) ms)
                 + sum_bool away_win (filter (\<lambda>m. AwayTeam m = t) ms)" and
    p: "rain_win_pct r = round_float (true_div (rain_wins ms t) (rain_games ms t)) 3" and
    t: "team_name r = t"
    unfolding recs aggregate_pandas_closed code_rain_games code_rain_wins by auto
  have "wins r \<le> played ms (team_name r)"
    unfolding w t by (rule wins_le_played)
  moreover have "\<exists>q. rain_win_pct r = Float q \<and> 0 \<le> q \<and> q \<le> 1" if "0 < rain_games ms (team_name r)"
    unfolding p using round_float_unit [OF rain_wins_le_games [of ms t]] that t by simp
  ultimately show ?thesis using ms by (intro exI [of _ ms]) simp
qed

theorem pandas_wins_and_pct_bounds_witness:
  "calculate_aggregate_stats_pandas example_enriched = Inr example_team_stats \<and>
   hd example_team_stats \<in> set example_team_stats \<and>
   (\<exists>ms. read_matches example_enriched = Some ms \<and>
      wins (hd example_team_stats) \<le> played ms (team_name (hd example_team_stats)) \<and>
      (0 < rain_games ms (team_name (hd example_team_stats)) \<longrightarrow>
         (\<exists>q. rain_win_pct (hd example_team_stats) = Float q \<and> 0 \<le> q \<and> q \<le> 1)))"
proof -
  have run: "calculate_aggregate_stats_pandas example_enriched = Inr example_team_stats"
    by code_simp
  have mem: "hd example_team_stats \<in> set example_team_stats"
    by (simp add: example_team_stats_def)
  from pandas_wins_and_pct_bounds [OF run mem] run mem show ?thesis by blast
qed

section \<open>The two aggregators against each other\<close>



text \<open>
  C6. Where both aggregators return, the in-memory aggregator gives each team with a
  rain-day game the quotient (home rain wins + away rain wins) / (home rain games + away
  rain games) rounded to 3 decimal digits, the query-based aggregator gives the same
  quotient rounded to 2 decimal digits, and the records of the query-based aggregator come
  ordered by total goals, descending.
\<close>

theorem rain_win_pct_rounding_and_order:
  assumes "calculate_aggregate_stats_pandas df = Inr ps"
    and "snd (calculate_aggregate_stats_sqlite bare fs df database) = Inr cs"
  shows "\<exists>ms. read_matches df = Some ms \<and>
           (\<forall>p \<in> set ps. 0 < rain_games ms (team_name p) \<longrightarrow>
              (\<exists>q. rain_win_pct p = Float q \<and>
                 rounded_to 3 q (of_nat (rain_wins ms (team_name p)) / of_nat (rain_games ms (team_name p))))) \<and>
           (\<forall>c \<in> set cs. 0 < rain_games ms (Club c) \<longrightarrow>
              (\<exists>q. rain_win_pct' c = Some q \<and>
                 rounded_to 2 q (of_nat (rain_wins ms (Club c)) / of_nat (rain_games ms (Club c))))) \<and>
           sorted_wrt (\<lambda>a b. GF a \<ge> GF b) cs"
proof -
  from pandas_Inr [OF assms(1)] obtain ms where
    ms: "read_matches df = Some ms" and ps: "ps = aggregate_pandas ms"
    by blast
  from sqlite_Inr_inv [OF assms(2)] ms have cs: "cs = agg_select bare ms"
    by auto
  have pandas: "\<exists>q. rain_win_pct p = Float q \<and>
                  rounded_to 3 q (of_nat (rain_wins ms (team_name p)) / of_nat (rain_games ms (team_name p)))"
    if "p \<in> set ps" "0 < rain_games ms (team_name p)" for p
  proof -
    from that(1) obtain t where
      "rain_win_pct p = round_float (true_div (rain_wins ms t) (rain_games ms t)) 3" "team_name p = t"
      unfolding ps aggregate_pandas_closed code_rain_games code_rain_wins by auto
    with round_float_rounded [of "rain_games ms t" "rain_wins ms t" 3] that(2)
    show ?thesis by simp
  qed
  have sqlite: "\<exists>q. rain_win_pct' c = Some q \<and>
                  rounded_to 2 q (of_nat (rain_wins ms (Club c)) / of_nat (rain_games ms (Club c)))"
    if "c \<in> set cs" "0 < rain_games ms (Club c)" for c
  proof -
    from that(1) obtain t where
      "rain_win_pct' c = sql_round (sql_div (of_nat (rain_wins ms t) * 1) (rain_games ms t)) 2" "Club c = t"
      unfolding cs agg_select_closed sql_rain_games sql_rain_wins by auto
    with sql_round_rounded [of "rain_games ms t" "rain_wins ms t" 2] that(2)
    show ?thesis by simp
  qed
  have "sorted (map (\<lambda>r. - GF r) cs)"
    unfolding cs agg_select_def by (rule sorted_sort_key)
  then have order: "sorted_wrt (\<lambda>a b. GF a \<ge> GF b) cs"
    by (simp add: sorted_map)
  from ms pandas sqlite order show ?thesis
    by (intro exI [of _ ms]) blast
qed

theorem rain_win_pct_rounding_and_order_witness:
  "calculate_aggregate_stats_pandas example_enriched = Inr example_team_stats \<and>
   snd (calculate_aggregate_stats_sqlite hd stats_files example_enriched ''stats.sqlite'')
     = Inr example_club_stats \<and>
   (\<exists>ms. read_matches example_enriched = Some ms \<and>
      (\<forall>p \<in> set example_team_stats. 0 < rain_games ms (team_name p) \<longrightarrow>
         (\<exists>q. rain_win_pct p = Float q \<and>
            rounded_to 3 q (of_nat (rain_wins ms (team_name p)) / of_nat (rain_games ms (team_name p))))) \<and>
      (\<forall>c \<in> set example_club_stats. 0 < rain_games ms (Club c) \<longrightarrow>
         (\<exists>q. rain_win_pct' c = Some q \<and>
            rounded_to 2 q (of_nat (rain_wins ms (Club c)) / of_nat (rain_games ms (Club c))))) \<and>
      sorted_wrt (\<lambda>a b. GF a \<ge> GF b) example_club_stats)"
proof -
  have run: "calculate_aggregate_stats_pandas example_enriched = Inr example_team_stats"
    by code_simp
  have query: "snd (calculate_aggregate_stats_sqlite hd stats_files example_enriched ''stats.sqlite'')
                 = Inr example_club_stats"
    by code_simp
  from rain_win_pct_rounding_and_order [OF run query] run query show ?thesis by blast
qed

section \<open>The requests of the weather aggregator\<close>

lemma rain_loop_requests:
  "rain_loop svc pw ds sent data = (sent', res) \<Longrightarrow>
     \<exists>k \<le> length ds.
       sent' = sent @ map (request_url pw default_lat default_long) (take k ds) \<and>
       (\<forall>data'. res = Inr data' \<longrightarrow>
          k = length ds \<and>
          data' = data @ map (\<lambda>d. [(''Date'', StrV d),
                     (''rain'', BoolV (svc (request_url pw default_lat default_long d) = Inr (Some ''rain'')))]) ds)"
proof (induction ds arbitrary: sent data)
  case Nil
  then show ?case by auto
next
  case (Cons d ds)
  let ?url = "request_url pw default_lat default_long d"
  show ?case
  proof (cases "svc ?url")
    case (Inl e)
    with Cons.prems have "sent' = sent @ [?url]" "res = Inl e"
      by (auto simp: get_weather_data_def)
    then show ?thesis by (intro exI [of _ 1]) simp
  next
    case (Inr icon)
    with Cons.prems have
      "rain_loop svc pw ds (sent @ [?url]) (data @ [[(''Date'', StrV d), (''rain'', BoolV (icon = Some ''rain''))]])
         = (sent', res)"
      by (simp add: get_weather_data_def)
    from Cons.IH [OF this] obtain k where k: "k \<le> length ds"
      and s: "sent' = (sent @ [?url]) @ map (request_url pw default_lat default_long) (take k ds)"
      and r: "\<forall>data'. res = Inr data' \<longrightarrow> k = length ds \<and>
               data' = (data @ [[(''Date'', StrV d), (''rain'', BoolV (icon = Some ''rain''))]])
                 @ map (\<lambda>d. [(''Date'', StrV d),
                     (''rain'', BoolV (svc (request_url pw default_lat default_long d) = Inr (Some ''rain'')))]) ds"
      by blast
    show ?thesis
      using k s r Inr by (intro exI [of _ "Suc k"]) auto
  qed
qed

lemma rows_DataFrame: "rows (DataFrame data) = map (map snd) data"
  by (cases data) (simp_all add: DataFrame_def)

text \<open>
  C5. For every list of dates, \<open>rain_dates\<close> sends its requests for distinct dates of the
  list, never more requests than the list has distinct dates; and when it returns a table,
  it has sent exactly one request for each distinct date and the table has exactly one row
  (date, rain) for each of them. (A request that raises ends the run, with the requests
  sent so far.)
\<close>

theorem rain_dates_one_request_per_date:
  assumes "rearranges ord"
    and "rain_dates svc ord sent unique_dates password = (sent', res)"
  shows "\<exists>calls. sent' = sent @ map (request_url password default_lat default_long) calls \<and>
           distinct calls \<and> set calls \<subseteq> set unique_dates \<and>
           length calls \<le> card (set unique_dates) \<and>
           (\<forall>df. res = Inr df \<longrightarrow>
              set calls = set unique_dates \<and> length calls = card (set unique_dates) \<and>
              rows df = map (\<lambda>d. [StrV d,
                   BoolV (svc (request_url password default_lat default_long d) = Inr (Some ''rain''))]) calls)"
proof -
  let ?ds = "py_set ord unique_dates"
  from assms(1) have perm: "mset ?ds = mset (remdups unique_dates)"
    by (simp add: rearranges_def py_set_def)
  then have dist: "distinct ?ds"
    by (metis distinct_remdups mset_eq_imp_distinct_iff)
  from perm have elems: "set ?ds = set unique_dates"
    by (metis mset_eq_setD set_remdups)
  from dist elems have len: "length ?ds = card (set unique_dates)"
    by (metis distinct_card)
  obtain res0 where loop: "rain_loop svc password ?ds sent [] = (sent', res0)"
    and res: "res = (case res0 of Inl e \<Rightarrow> Inl e | Inr data \<Rightarrow> Inr (DataFrame data))"
    using assms(2) by (auto simp: rain_dates_def split: prod.splits sum.splits)
  from rain_loop_requests [OF loop] obtain k where k: "k \<le> length ?ds"
    and s: "sent' = sent @ map (request_url password default_lat default_long) (take k ?ds)"
    and r: "\<forall>data'. res0 = Inr data' \<longrightarrow> k = length ?ds \<and>
              data' = [] @ map (\<lambda>d. [(''Date'', StrV d),
                 (''rain'', BoolV (svc (request_url password default_lat default_long d) = Inr (Some ''rain'')))]) ?ds"
    by blast
  let ?calls = "take k ?ds"
  have "distinct ?calls" using dist by simp
  moreover have "set ?calls \<subseteq> set unique_dates"
    using elems set_take_subset [of k ?ds] by simp
  moreover have "length ?calls \<le> card (set unique_dates)"
    using len by simp
  moreover have "set ?calls = set unique_dates \<and> length ?calls = card (set unique_dates) \<and>
              rows df = map (\<lambda>d. [StrV d,
                   BoolV (svc (request_url password default_lat default_long d) = Inr (Some ''rain''))]) ?calls"
    if "res = Inr df" for df
  proof -
    from that res obtain data where d: "res0 = Inr data" and df: "df = DataFrame data"
      by (auto split: sum.splits)
    from r d have kk: "k = length ?ds" and
      data: "data = map (\<lambda>d. [(''Date'', StrV d),
                 (''rain'', BoolV (svc (request_url password default_lat default_long d) = Inr (Some ''rain'')))]) ?ds"
      by simp_all
    from kk have "?calls = ?ds" by simp
    then show ?thesis
      using elems len by (simp add: df rows_DataFrame data comp_def)
  qed
  ultimately show ?thesis using s by (intro exI [of _ ?calls]) blast
qed

theorem rain_dates_one_request_per_date_witness:
  "rearranges (rev :: string list \<Rightarrow> string list) \<and>
   rain_dates example_service rev [] example_dates ''key''
     = (map (request_url ''key'' default_lat default_long) [''2020-01-01'', ''2020-01-02''], Inr example_rain) \<and>
   (\<exists>calls. map (request_url ''key'' default_lat default_long) [''2020-01-01'', ''2020-01-02'']
              = [] @ map (request_url ''key'' default_lat default_long) calls \<and>
           distinct calls \<and> set calls \<subseteq> set example_dates \<and>
           length calls \<le> card (set example_dates) \<and>
           (\<forall>df. Inr example_rain = Inr df \<longrightarrow>
              set calls = set example_dates \<and> length calls = card (set example_dates) \<and>
              rows df = map (\<lambda>d. [StrV d,
                   BoolV (example_service (request_url ''key'' default_lat default_long d) = Inr (Some ''rain''))]) calls))"
proof -
  have perm: "rearranges (rev :: string list \<Rightarrow> string list)"
    by (simp add: rearranges_def)
  have run: "rain_dates example_service rev [] example_dates ''key''
     = (map (request_url ''key'' default_lat default_long) [''2020-01-01'', ''2020-01-02''], Inr example_rain)"
    by code_simp
  from rain_dates_one_request_per_date [OF perm run] perm run show ?thesis by blast
qed

section \<open>The limit on requests\<close>

lemma slice_to_default: "slice_to limit_api_calls_default xs = butlast xs"
  by (simp add: slice_to_def limit_api_calls_default_def butlast_conv_take)

lemma slice_to_nonneg: "0 \<le> n \<Longrightarrow> slice_to n xs = take (nat n) xs"
  by (simp add: slice_to_def)

text \<open>
  C1. With \<open>limit_api_calls\<close> left at its default on the season of two matches played on
  two days, \<open>match_rain_data\<close> sends one request, for the first day only, and the joined
  table holds only the match of that day: the slice \<^verbatim>\<open>[:-1]\<close> drops the last of the
  distinct dates.
\<close>

theorem match_rain_data_default_limit:
  "match_rain_data example_files example_service rev [] ''database.sqlite'' 2020 ''key''
     limit_api_calls_default
   = ([request_url ''key'' default_lat default_long ''2020-01-01''],
      Inr \<lparr>columns = columns example_enriched, rows = [hd (rows example_enriched)]\<rparr>)"
  by code_simp

section \<open>The database argument\<close>

text \<open>
  C10. The result of \<open>match_rain_data\<close> (and the requests it sends) is the same for any
  two values of its argument \<open>database\<close>, everything else equal.
\<close>

theorem match_rain_data_ignores_database:
  "match_rain_data fs svc ord sent d1 year password limit_api_calls
     = match_rain_data fs svc ord sent d2 year password limit_api_calls"
  by (simp add: match_rain_data_def)

section \<open>Joining twice\<close>

lemma cell_append:
  assumes "length cols = length row" "c \<in> set cols"
  shows "cell (cols @ cs) (row @ vs) c = cell cols row c"
proof -
  have "c \<in> dom (map_of (zip cols row))" using assms by simp
  then show ?thesis using assms(1) by (simp add: cell_def map_add_dom_app_simps)
qed

lemma filter_unique_key:
  "distinct (map f xs) \<Longrightarrow> x \<in> set xs \<Longrightarrow> filter (\<lambda>y. f y = f x) xs = [x]"
proof (induction xs)
  case Nil
  then show ?case by simp
next
  case (Cons a xs)
  show ?case
  proof (cases "a = x")
    case True
    from Cons.prems True have nx: "f x \<notin> f ` set xs" by simp
    have "filter (\<lambda>y. f y = f x) xs = []"
      unfolding filter_empty_conv
    proof (intro ballI notI)
      fix y assume "y \<in> set xs" "f y = f x"
      then have "f x \<in> f ` set xs" by (metis imageI)
      with nx show False ..
    qed
    with True show ?thesis by simp
  next
    case False
    with Cons.prems have "x \<in> set xs" "f a \<noteq> f x" by auto
    with Cons show ?thesis by simp
  qed
qed

lemma concat_singletons:
  "(\<And>x. x \<in> set xs \<Longrightarrow> F x = [g x]) \<Longrightarrow> concat (map F xs) = map g xs"
  by (induction xs) simp_all

lemma rain_row:
  assumes "length rr = 2"
  shows "drop_column ''Date'' [''Date'', ''rain''] rr = [last rr]"
    and "cell [''Date'', ''rain''] rr ''Date'' = Some (hd rr)"
proof -
  from assms obtain a b where "rr = [a, b]"
    by (cases rr; cases "tl rr") auto
  then show "drop_column ''Date'' [''Date'', ''rain''] rr = [last rr]"
    and "cell [''Date'', ''rain''] rr ''Date'' = Some (hd rr)"
    by (simp_all add: drop_column_def cell_def)
qed

text \<open>
  C4, as amended. Let \<open>m\<close> be a match table with no column \<open>rain\<close> whose rows have one
  cell for each column, and \<open>r\<close> a rain table with the columns \<open>Date\<close> and \<open>rain\<close>, rows
  of two cells and one row for each date. When joining \<open>m\<close> with \<open>r\<close> on \<open>Date\<close> gives
  \<open>j\<close>, joining \<open>j\<close> with \<open>r\<close> again gives the rows of \<open>j\<close> in the same order, each with
  its rain flag a second time, under the columns of \<open>m\<close> followed by \<open>rain_x\<close> and
  \<open>rain_y\<close>: the same matches, but not the same table.
\<close>

theorem join_twice:
  assumes once: "pd_merge ''Date'' m r = Inr j"
    and rcols: "columns r = [''Date'', ''rain'']"
    and rrows: "\<forall>row \<in> set (rows r). length row = 2"
    and rdates: "distinct (map (\<lambda>row. cell (columns r) row ''Date'') (rows r))"
    and mcols: "''rain'' \<notin> set (columns m)"
    and mrows: "\<forall>row \<in> set (rows m). length row = length (columns m)"
  shows "columns j = columns m @ [''rain''] \<and>
         pd_merge ''Date'' j r =
           Inr \<lparr>columns = columns m @ [''rain_x'', ''rain_y''],
                rows = map (\<lambda>row. row @ [last row]) (rows j)\<rparr>"
proof -
  let ?key = "\<lambda>cols row. cell cols row ''Date''"
  let ?pairs = "\<lambda>cols l. filter (\<lambda>rr. ?key (columns r) rr = ?key cols l) (rows r)"
  from once have mdate: "''Date'' \<in> set (columns m)"
    by (auto simp: pd_merge_def split: if_splits)
  have names: "map (\<lambda>c. if c = ''rain'' then c @ ''_x'' else c) (columns m) = columns m"
    by (rule map_idI) (use mcols in auto)
  from once mdate mcols have jcols: "columns j = columns m @ [''rain'']"
    and jrows: "rows j = concat (map (\<lambda>l. map (\<lambda>rr. l @ drop_column ''Date'' (columns r) rr)
                                        (?pairs (columns m) l)) (rows m))"
    by (auto simp: pd_merge_def rcols Let_def names)
  have step: "map (\<lambda>rr. jr @ drop_column ''Date'' (columns r) rr) (?pairs (columns j) jr)
                = [jr @ [last jr]]"
    if "jr \<in> set (rows j)" for jr
  proof -
    from that obtain l rr where l: "l \<in> set (rows m)" and rr: "rr \<in> set (rows r)"
      and same: "?key (columns r) rr = ?key (columns m) l"
      and jr: "jr = l @ drop_column ''Date'' (columns r) rr"
      unfolding jrows by auto
    from rr rrows have len: "length rr = 2" by simp
    have jr': "jr = l @ [last rr]" unfolding jr rcols rain_row(1) [OF len] ..
    from l mrows have "length (columns m) = length l" by simp
    then have "?key (columns j) jr = ?key (columns m) l"
      unfolding jcols jr' using mdate by (rule cell_append)
    with same have "?pairs (columns j) jr = filter (\<lambda>y. ?key (columns r) y = ?key (columns r) rr) (rows r)"
      by simp
    also have "\<dots> = [rr]" using rdates rr by (rule filter_unique_key)
    finally show ?thesis
      unfolding rcols by (simp add: rain_row(1) [OF len] jr')
  qed
  have rows2: "concat (map (\<lambda>jr. map (\<lambda>rr. jr @ drop_column ''Date'' (columns r) rr) (?pairs (columns j) jr)) (rows j))
      = map (\<lambda>row. row @ [last row]) (rows j)"
    by (rule concat_singletons) (rule step)
  have "pd_merge ''Date'' j r =
           Inr \<lparr>columns = columns m @ [''rain_x'', ''rain_y''],
                rows = map (\<lambda>row. row @ [last row]) (rows j)\<rparr>"
    unfolding pd_merge_def Let_def rows2 using mdate mcols
    by (simp add: jcols rcols names)
  with jcols show ?thesis by simp
qed

theorem join_twice_witness:
  "pd_merge ''Date'' example_matches example_rain = Inr example_enriched \<and>
   columns example_rain = [''Date'', ''rain''] \<and>
   list_all (\<lambda>row. length row = 2) (rows example_rain) \<and>
   distinct (map (\<lambda>row. cell (columns example_rain) row ''Date'') (rows example_rain)) \<and>
   ''rain'' \<notin> set (columns example_matches) \<and>
   list_all (\<lambda>row. length row = length (columns example_matches)) (rows example_matches) \<and>
   columns example_enriched = columns example_matches @ [''rain''] \<and>
   pd_merge ''Date'' example_enriched example_rain =
     Inr \<lparr>columns = columns example_matches @ [''rain_x'', ''rain_y''],
          rows = map (\<lambda>row. row @ [last row]) (rows example_enriched)\<rparr>"
proof -
  have once: "pd_merge ''Date'' example_matches example_rain = Inr example_enriched"
    by code_simp
  have rcols: "columns example_rain = [''Date'', ''rain'']"
    by (simp add: example_rain_def)
  have rrows: "\<forall>row \<in> set (rows example_rain). length row = 2"
    by (simp add: example_rain_def)
  have rdates: "distinct (map (\<lambda>row. cell (columns example_rain) row ''Date'') (rows example_rain))"
    by (simp add: example_rain_def cell_def)
  have mcols: "''rain'' \<notin> set (columns example_matches)"
    by (simp add: example_matches_def)
  have mrows: "\<forall>row \<in> set (rows example_matches). length row = length (columns example_matches)"
    by (simp add: example_matches_def)
  from join_twice [OF once rcols rrows rdates mcols mrows] once rcols rrows rdates mcols mrows
  show ?thesis by (simp add: list_all_iff)
qed

text \<open>Joining the two example matches with their weather twice does not give what joining once gives.\<close>

theorem join_twice_counterexample:
  "pd_merge ''Date'' example_matches example_rain = Inr example_enriched \<and>
   pd_merge ''Date'' example_enriched example_rain \<noteq> Inr example_enriched"
  by code_simp

section \<open>The staging table\<close>

text \<open>
  C9, as amended. On a database that can be opened, the query-based aggregator has dropped
  the staging table \<open>temp_rain_stats\<close> when it returns its records; when the aggregation
  query raises an OperationalError, the function ends there and the staging table stays
  in the database, holding the table that was written.
\<close>

theorem sqlite_staging_table:
  assumes "fs database = Some conn0"
    and "calculate_aggregate_stats_sqlite bare fs df database = (fs', res)"
  shows "(\<forall>cs. res = Inr cs \<longrightarrow> (\<exists>conn. fs' database = Some conn \<and> conn ''temp_rain_stats'' = None)) \<and>
         (\<forall>msg. res = Inl (OperationalError msg) \<longrightarrow>
            (\<exists>conn. fs' database = Some conn \<and> conn ''temp_rain_stats'' = Some (to_sql df)))"
  using assms
  by (auto simp: calculate_aggregate_stats_sqlite_def Let_def split: if_splits sum.splits)

theorem sqlite_staging_table_witness:
  "stats_files ''stats.sqlite'' = Some Map.empty \<and>
   snd (calculate_aggregate_stats_sqlite hd stats_files example_enriched ''stats.sqlite'') = Inr example_club_stats \<and>
   (\<exists>conn. fst (calculate_aggregate_stats_sqlite hd stats_files example_enriched ''stats.sqlite'') ''stats.sqlite'' = Some conn
       \<and> conn ''temp_rain_stats'' = None)"
proof -
  have db: "stats_files ''stats.sqlite'' = Some Map.empty"
    by (simp add: stats_files_def)
  have query: "snd (calculate_aggregate_stats_sqlite hd stats_files example_enriched ''stats.sqlite'')
                 = Inr example_club_stats"
    by code_simp
  have run: "calculate_aggregate_stats_sqlite hd stats_files example_enriched ''stats.sqlite''
               = (fst (calculate_aggregate_stats_sqlite hd stats_files example_enriched ''stats.sqlite''),
                  snd (calculate_aggregate_stats_sqlite hd stats_files example_enriched ''stats.sqlite''))"
    by simp
  from sqlite_staging_table [where fs = stats_files and database = "''stats.sqlite''", OF db run]
    db query
  show ?thesis by simp
qed

text \<open>
  On the example matches without the column \<open>rain\<close> the query fails and the staging table
  is left behind.
\<close>

theorem sqlite_staging_table_counterexample:
  "(case calculate_aggregate_stats_sqlite hd stats_files example_matches ''stats.sqlite'' of
      (fs', res) \<Rightarrow>
        res = Inl (OperationalError ''no such column'') \<and>
        map_option (\<lambda>conn. conn ''temp_rain_stats'') (fs' ''stats.sqlite'')
          = Some (Some (to_sql example_matches)))"
  by code_simp

end
